theory Spec2Isabelle
  imports Complex_Main
begin

section \<open>IFRS 17 claim accrual estimator\<close>

text \<open>
  A shallow embedding of \<^verbatim>\<open>estimator.py\<close> (chain ladder, risk adjustment, discounting
  and their composition), of the table \<^verbatim>\<open>LDF_PATTERNS\<close> of \<^verbatim>\<open>app_old.py\<close>, and of the
  bracket classifier \<^verbatim>\<open>calculate_accrual_bracket\<close> of \<^verbatim>\<open>app.py\<close>.

  Python floats are modelled as \<^typ>\<open>real\<close>: the arithmetic is exact, and the rounding,
  overflow and special values of IEEE-754 doubles are not represented. Python integers are
  \<^typ>\<open>int\<close>, dictionaries are maps, and each dictionary a function returns is a record
  with one field per key.
\<close>

subsection \<open>Python helpers\<close>

text \<open>\<^verbatim>\<open>d.get(k, default)\<close>.\<close>

definition dict_get :: "('k \<rightharpoonup> 'v) \<Rightarrow> 'k \<Rightarrow> 'v \<Rightarrow> 'v" where
  "dict_get d k dflt = (case d k of None \<Rightarrow> dflt | Some v \<Rightarrow> v)"

text \<open>
  The slice \<^verbatim>\<open>xs[i:]\<close>. A negative start counts from the end of the list, and a start
  outside the list is cut to the nearest end; no slice raises.
\<close>

definition slice_from :: "'a list \<Rightarrow> int \<Rightarrow> 'a list" where
  "slice_from xs i =
     (if i < 0 then drop (nat (int (length xs) + i)) xs else drop (nat i) xs)"

subsection \<open>The development patterns (\<^verbatim>\<open>app_old.py\<close>, lines 12-18)\<close>

definition LDF_PATTERNS :: "string \<rightharpoonup> real list" where
  "LDF_PATTERNS = map_of
     [(''Auto'', [3.5, 2.2, 1.5, 1.2, 1.1, 1.05, 1.02, 1.01, 1.005, 1.0]),
      (''Property'', [2.8, 1.9, 1.4, 1.15, 1.08, 1.04, 1.02, 1.01, 1.005, 1.0]),
      (''Liability'', [5.0, 3.5, 2.5, 1.8, 1.4, 1.2, 1.1, 1.05, 1.02, 1.01]),
      (''Health'', [2.0, 1.5, 1.2, 1.1, 1.05, 1.02, 1.01, 1.005, 1.0, 1.0]),
      (''Workers Comp'', [4.5, 3.0, 2.2, 1.6, 1.3, 1.15, 1.08, 1.04, 1.02, 1.01])]"

text \<open>The risk adjustment factors (\<^verbatim>\<open>app_old.py\<close>, lines 21-25).\<close>

definition RISK_ADJUSTMENT_FACTORS :: "string \<rightharpoonup> real" where
  "RISK_ADJUSTMENT_FACTORS = map_of [(''Low'', 0.05), (''Medium'', 0.10), (''High'', 0.20)]"

subsection \<open>ChainLadder (\<^verbatim>\<open>estimator.py\<close>, lines 12-69)\<close>

text \<open>
  Each class keeps what its constructor was given; a method takes the object as its first
  argument, as \<^verbatim>\<open>self\<close>.
\<close>

record ChainLadder =
  patterns :: "string \<rightharpoonup> real list"

definition get_cumulative_factor :: "ChainLadder \<Rightarrow> string \<Rightarrow> int \<Rightarrow> real" where
  "get_cumulative_factor self claim_type development_period =
     (let ldfs = dict_get (patterns self) claim_type (dict_get (patterns self) ''Auto'' [1]);
          period = min development_period (int (length ldfs) - 1)
      in if period \<ge> int (length ldfs) - 1 then 1
         else prod_list (slice_from ldfs period))"

record ultimate_estimate =
  ue_incurred :: real
  ue_development_period :: int
  ue_cumulative_factor :: real
  ue_ultimate_loss :: real
  ue_ibnr :: real

definition estimate_ultimate :: "ChainLadder \<Rightarrow> real \<Rightarrow> string \<Rightarrow> int \<Rightarrow> ultimate_estimate" where
  "estimate_ultimate self incurred claim_type development_period =
     (let cdf = get_cumulative_factor self claim_type development_period;
          ultimate = incurred * cdf
      in \<lparr>ue_incurred = incurred,
          ue_development_period = development_period,
          ue_cumulative_factor = cdf,
          ue_ultimate_loss = ultimate,
          ue_ibnr = ultimate - incurred\<rparr>)"

subsection \<open>RiskAdjustment (\<^verbatim>\<open>estimator.py\<close>, lines 99-130)\<close>

record RiskAdjustment =
  factors :: "string \<rightharpoonup> real"

record risk_result =
  ra_ultimate_loss :: real
  ra_risk_level :: string
  ra_risk_factor :: real
  ra_risk_adjustment :: real

definition calculate :: "RiskAdjustment \<Rightarrow> real \<Rightarrow> string \<Rightarrow> risk_result" where
  "calculate self ultimate_loss risk_level =
     (let factor = dict_get (factors self) risk_level 0.10;
          adjustment = ultimate_loss * factor
      in \<lparr>ra_ultimate_loss = ultimate_loss,
          ra_risk_level = risk_level,
          ra_risk_factor = factor,
          ra_risk_adjustment = adjustment\<rparr>)"

subsection \<open>Discounting (\<^verbatim>\<open>estimator.py\<close>, lines 159-198)\<close>

text \<open>
  The power \<^verbatim>\<open>b ** e\<close> of two Python floats is not defined everywhere: a zero base with a
  negative exponent raises \<^verbatim>\<open>ZeroDivisionError\<close>, and a negative base with a fractional
  exponent gives a complex number, so that the code goes on with values that are no longer
  floats. Both are outcomes of the model: \<open>Inl ZeroDivisionError\<close> for the exception, and
  \<open>Inl ComplexResult\<close> where the computation leaves the reals.
\<close>

datatype fault = ZeroDivisionError | ComplexResult

definition float_pow :: "real \<Rightarrow> real \<Rightarrow> fault + real" where
  "float_pow b e =
     (if 0 < b then Inr (b powr e)
      else if b = 0 then
        (if e < 0 then Inl ZeroDivisionError else if e = 0 then Inr 1 else Inr 0)
      else if e = of_int \<lfloor>e\<rfloor> then
        Inr (if even \<lfloor>e\<rfloor> then \<bar>b\<bar> powr e else - (\<bar>b\<bar> powr e))
      else Inl ComplexResult)"

record Discounting =
  rate :: real

record pv_result =
  pv_future_value :: real
  pv_years :: real
  pv_discount_rate :: real
  pv_discount_factor :: real
  pv_present_value :: real
  pv_discount_amount :: real

definition calculate_pv :: "Discounting \<Rightarrow> real \<Rightarrow> real \<Rightarrow> fault + pv_result" where
  "calculate_pv self future_value years =
     (case (if years \<le> 0 then Inr (1, future_value)
            else
              case float_pow (1 + rate self) (- years) of
                Inl err \<Rightarrow> Inl err
              | Inr discount_factor \<Rightarrow> Inr (discount_factor, future_value * discount_factor))
      of
        Inl err \<Rightarrow> Inl err
      | Inr (discount_factor, present_value) \<Rightarrow>
          (let discount_amount = future_value - present_value
           in Inr \<lparr>pv_future_value = future_value,
                    pv_years = years,
                    pv_discount_rate = rate self,
                    pv_discount_factor = discount_factor,
                    pv_present_value = present_value,
                    pv_discount_amount = discount_amount\<rparr>))"

subsection \<open>IFRS17Accrual (\<^verbatim>\<open>estimator.py\<close>, lines 230-301)\<close>

record IFRS17Accrual =
  chain_ladder :: ChainLadder
  risk_adjustment :: RiskAdjustment
  discounting :: Discounting

record accrual_result =
  ac_incurred :: real
  ac_paid :: real
  ac_ultimate_loss :: real
  ac_outstanding_claims :: real
  ac_risk_adjustment :: real
  ac_pv_ultimate :: real
  ac_pv_outstanding :: real
  ac_discount_amount :: real
  ac_total_accrual :: real
  ac_development_period :: int
  ac_years_to_settlement :: real
  ac_risk_level :: string

definition calculate_accrual ::
  "IFRS17Accrual \<Rightarrow> real \<Rightarrow> real \<Rightarrow> string \<Rightarrow> int \<Rightarrow> real \<Rightarrow> string \<Rightarrow> fault + accrual_result" where
  "calculate_accrual self incurred paid claim_type development_period
       years_to_settlement risk_level =
     (let ultimate_est =
            estimate_ultimate (chain_ladder self) incurred claim_type development_period;
          ultimate = ue_ultimate_loss ultimate_est;
          outstanding = ultimate - paid;
          risk_adj = calculate (risk_adjustment self) ultimate risk_level
      in case calculate_pv (discounting self) ultimate years_to_settlement of
           Inl err \<Rightarrow> Inl err
         | Inr pv_ultimate \<Rightarrow>
             (case calculate_pv (discounting self) outstanding years_to_settlement of
                Inl err \<Rightarrow> Inl err
              | Inr pv_outstanding \<Rightarrow>
                  (let total_accrual =
                         pv_present_value pv_outstanding + ra_risk_adjustment risk_adj
                   in Inr \<lparr>ac_incurred = incurred,
                            ac_paid = paid,
                            ac_ultimate_loss = ultimate,
                            ac_outstanding_claims = outstanding,
                            ac_risk_adjustment = ra_risk_adjustment risk_adj,
                            ac_pv_ultimate = pv_present_value pv_ultimate,
                            ac_pv_outstanding = pv_present_value pv_outstanding,
                            ac_discount_amount = pv_discount_amount pv_ultimate,
                            ac_total_accrual = total_accrual,
                            ac_development_period = development_period,
                            ac_years_to_settlement = years_to_settlement,
                            ac_risk_level = risk_level\<rparr>)))"

subsection \<open>The bracket classifier (\<^verbatim>\<open>app.py\<close>, lines 9-97)\<close>

text \<open>
  The warnings start with a warning sign, U+26A0 U+FE0F; a string of the model holds its
  UTF-8 bytes.
\<close>

definition warning_sign :: string where
  "warning_sign = [CHR 0xE2, CHR 0x9A, CHR 0xA0, CHR 0xEF, CHR 0xB8, CHR 0x8F]"

definition extended_warning :: string where
  "extended_warning =
     warning_sign @ '' Extended investigation period (>12 months) increases uncertainty''"

definition moderate_warning :: string where
  "moderate_warning = warning_sign @ '' Moderate investigation period (6-12 months)''"

definition ibnr_warning :: string where
  "ibnr_warning = warning_sign @ '' IBNR claim - higher uncertainty in estimation''"

definition catastrophic_warning :: string where
  "catastrophic_warning =
     warning_sign @ '' Catastrophic severity - consult senior actuarial team''"

definition stage_weights :: "string \<rightharpoonup> int" where
  "stage_weights = map_of
     [(''Reported'', 1), (''Under Investigation'', 2), (''Evaluated'', 3),
      (''Settlement Negotiation'', 4), (''Closed'', 5)]"

definition severity_weights :: "string \<rightharpoonup> int" where
  "severity_weights = map_of
     [(''Minor'', 1), (''Moderate'', 2), (''Severe'', 3), (''Catastrophic'', 4)]"

text \<open>
  The three local variables that the function accumulates, and their values at line 75,
  after the last adjustment and before the cap. The flag \<^verbatim>\<open>ibnr_flag\<close> is the string of
  the radio button, \<^verbatim>\<open>"Yes"\<close> or \<^verbatim>\<open>"No"\<close>.
\<close>

record scoring =
  accrual_level :: int
  warnings :: "string list"
  uncertainty_score :: real

definition accumulate_score :: "string \<Rightarrow> string \<Rightarrow> int \<Rightarrow> string \<Rightarrow> scoring" where
  "accumulate_score claim_stage severity_bracket investigation_duration ibnr_flag =
     (let s0 = \<lparr>accrual_level = 0, warnings = [], uncertainty_score = 0\<rparr>;
          s1 = s0\<lparr>accrual_level := accrual_level s0 + dict_get stage_weights claim_stage 1\<rparr>;
          s2 = s1\<lparr>accrual_level :=
                    accrual_level s1 + dict_get severity_weights severity_bracket 1\<rparr>;
          s3 = (if investigation_duration > 12 then
                  s2\<lparr>accrual_level := accrual_level s2 + 2,
                      warnings := warnings s2 @ [extended_warning],
                      uncertainty_score := uncertainty_score s2 + 0.25\<rparr>
                else if investigation_duration > 6 then
                  s2\<lparr>accrual_level := accrual_level s2 + 1,
                      warnings := warnings s2 @ [moderate_warning],
                      uncertainty_score := uncertainty_score s2 + 0.15\<rparr>
                else s2);
          s4 = (if ibnr_flag = ''Yes'' then
                  s3\<lparr>accrual_level := accrual_level s3 + 2,
                      warnings := warnings s3 @ [ibnr_warning],
                      uncertainty_score := uncertainty_score s3 + 0.30\<rparr>
                else s3);
          s5 = (if claim_stage = ''Reported'' then
                  s4\<lparr>uncertainty_score := uncertainty_score s4 + 0.20\<rparr>
                else if claim_stage = ''Under Investigation'' then
                  s4\<lparr>uncertainty_score := uncertainty_score s4 + 0.15\<rparr>
                else s4);
          s6 = (if severity_bracket = ''Catastrophic'' then
                  s5\<lparr>uncertainty_score := uncertainty_score s5 + 0.20,
                      warnings := warnings s5 @ [catastrophic_warning]\<rparr>
                else s5)
      in s6)"

text \<open>Lines 80-89: the bracket of an accrual level.\<close>

definition bracket_of_level :: "int \<Rightarrow> string" where
  "bracket_of_level level =
     (if level \<le> 3 then ''Band A (Low Reserve)''
      else if level \<le> 5 then ''Band B (Moderate Reserve)''
      else if level \<le> 7 then ''Band C (Elevated Reserve)''
      else if level \<le> 9 then ''Band D (High Reserve)''
      else ''Band E (Maximum Reserve)'')"

text \<open>
  The function returns the bracket, the explanation and the capped uncertainty score. The
  explanation is the text that \<^verbatim>\<open>generate_explanation\<close> renders from the inputs, the
  bracket, the accrual level, the warnings and the uncertainty score; the model returns
  these values in its place.
\<close>

record bracket_result =
  br_bracket :: string
  br_accrual_level :: int
  br_warnings :: "string list"
  br_uncertainty_score :: real

definition calculate_accrual_bracket :: "string \<Rightarrow> string \<Rightarrow> int \<Rightarrow> string \<Rightarrow> bracket_result" where
  "calculate_accrual_bracket claim_stage severity_bracket investigation_duration ibnr_flag =
     (let s = accumulate_score claim_stage severity_bracket investigation_duration ibnr_flag;
          capped = min (uncertainty_score s) 1;
          bracket = bracket_of_level (accrual_level s)
      in \<lparr>br_bracket = bracket,
          br_accrual_level = accrual_level s,
          br_warnings = warnings s,
          br_uncertainty_score = capped\<rparr>)"

subsection \<open>A calculator for the examples\<close>

text \<open>
  The calculator of the examples below: the two tables of \<^verbatim>\<open>app_old.py\<close> and a
  discount rate of 25 per cent, at which the discount factors of whole years are short
  decimal fractions.
\<close>

definition demo :: IFRS17Accrual where
  "demo = \<lparr>chain_ladder = \<lparr>patterns = LDF_PATTERNS\<rparr>,
           risk_adjustment = \<lparr>factors = RISK_ADJUSTMENT_FACTORS\<rparr>,
           discounting = \<lparr>rate = 0.25\<rparr>\<rparr>"

section \<open>Evaluation\<close>

lemmas estimator_defs =
  calculate_accrual_def demo_def estimate_ultimate_def get_cumulative_factor_def
  LDF_PATTERNS_def RISK_ADJUSTMENT_FACTORS_def dict_get_def calculate_def calculate_pv_def
  float_pow_def slice_from_def Let_def

lemmas classifier_defs =
  calculate_accrual_bracket_def accumulate_score_def bracket_of_level_def
  stage_weights_def severity_weights_def dict_get_def Let_def

lemmas warning_defs =
  ibnr_warning_def extended_warning_def moderate_warning_def catastrophic_warning_def

section \<open>The chain ladder\<close>

text \<open>
  Claim C6: whatever the table and the claim type, a development period at or beyond the
  last index of the pattern that is looked up gives the cumulative factor 1.
\<close>

theorem fully_developed_factor_is_one:
  assumes "int (length (dict_get (patterns self) claim_type
                          (dict_get (patterns self) ''Auto'' [1]))) - 1
             \<le> development_period"
  shows "get_cumulative_factor self claim_type development_period = 1"
  using assms by (simp add: get_cumulative_factor_def Let_def)

theorem fully_developed_factor_is_one_witness:
  "int (length (dict_get (patterns (chain_ladder demo)) ''Liability''
                  (dict_get (patterns (chain_ladder demo)) ''Auto'' [1]))) - 1 \<le> 9
   \<and> get_cumulative_factor (chain_ladder demo) ''Liability'' 9 = 1
   \<and> get_cumulative_factor (chain_ladder demo) ''Liability'' 8 \<noteq> 1"
  using fully_developed_factor_is_one [of "chain_ladder demo" "''Liability''" 9]
  by (simp add: estimator_defs)

text \<open>
  The upper bound of the period is enforced: a period beyond the last index behaves as the
  last index.
\<close>

lemma get_cumulative_factor_upper_clamp:
  "get_cumulative_factor self claim_type development_period =
   get_cumulative_factor self claim_type
     (min development_period
        (int (length (dict_get (patterns self) claim_type
                        (dict_get (patterns self) ''Auto'' [1]))) - 1))"
  by (simp add: get_cumulative_factor_def Let_def)

text \<open>
  There is no lower bound: a negative period reaches the slice, which then counts from the
  end of the pattern, so that the factor is the product of the last factors only.
\<close>

lemma get_cumulative_factor_negative:
  assumes "development_period < 0"
    and "1 < length (dict_get (patterns self) claim_type (dict_get (patterns self) ''Auto'' [1]))"
  shows "get_cumulative_factor self claim_type development_period =
         prod_list
           (drop (nat (int (length (dict_get (patterns self) claim_type
                                      (dict_get (patterns self) ''Auto'' [1])))
                       + development_period))
              (dict_get (patterns self) claim_type (dict_get (patterns self) ''Auto'' [1])))"
  using assms by (simp add: get_cumulative_factor_def Let_def slice_from_def)

text \<open>
  Claim C7: the period is to be clamped to the indices of the pattern, so that a negative
  period gives the factor of period 0. The code does not do so: for the Auto pattern the
  period -2 gives 1.005, the product of the last two factors, where period 0 gives
  16.5742094133.
\<close>

theorem negative_period_not_clamped:
  "get_cumulative_factor \<lparr>patterns = LDF_PATTERNS\<rparr> ''Auto'' (- 2) = 1.005
   \<and> get_cumulative_factor \<lparr>patterns = LDF_PATTERNS\<rparr> ''Auto'' 0 = 16.5742094133"
  by (simp add: estimator_defs)

text \<open>
  Claim C9: a claim type that is not a key of the table gives the same estimate as the
  type Auto, for every incurred amount and every development period. (When Auto is not a
  key either, both fall back to the pattern [1.0].)
\<close>

theorem unknown_claim_type_uses_auto:
  assumes "patterns self claim_type = None"
  shows "estimate_ultimate self incurred claim_type development_period =
         estimate_ultimate self incurred ''Auto'' development_period"
  using assms
  by (simp add: estimate_ultimate_def get_cumulative_factor_def dict_get_def Let_def
           split: option.splits)

theorem unknown_claim_type_uses_auto_witness:
  "patterns (chain_ladder demo) ''Marine'' = None
   \<and> patterns (chain_ladder demo) ''Auto'' \<noteq> None
   \<and> estimate_ultimate (chain_ladder demo) 50000 ''Marine'' 3 =
     estimate_ultimate (chain_ladder demo) 50000 ''Auto'' 3
   \<and> ue_cumulative_factor (estimate_ultimate (chain_ladder demo) 50000 ''Marine'' 3) =
       717498243 / 500000000"
  using unknown_claim_type_uses_auto [of "chain_ladder demo" "''Marine''" 50000 3]
  by (simp add: estimator_defs)

text \<open>
  Claim C2, as it is written: for Auto, an incurred loss of 50000 and period 0, the
  cumulative factor is about 14.34 and the ultimate loss about 716,800. Neither holds: the
  factor is more than 2 away from 14.34, and the ultimate loss more than 100,000 away from
  716,800.
\<close>

theorem auto_example_counterexample:
  "2 < \<bar>get_cumulative_factor \<lparr>patterns = LDF_PATTERNS\<rparr> ''Auto'' 0 - 14.34\<bar>
   \<and> 100000 < \<bar>ue_ultimate_loss
                   (estimate_ultimate \<lparr>patterns = LDF_PATTERNS\<rparr> 50000 ''Auto'' 0)
                 - 716800\<bar>"
  by (simp add: estimator_defs)

text \<open>
  Claim C2, amended: for that input the cumulative factor is the product of all ten Auto
  factors, which is 16.5742094133, and the ultimate loss is 828,710.470665.
\<close>

theorem auto_example:
  "get_cumulative_factor \<lparr>patterns = LDF_PATTERNS\<rparr> ''Auto'' 0 =
     prod_list [3.5, 2.2, 1.5, 1.2, 1.1, 1.05, 1.02, 1.01, 1.005, 1.0]
   \<and> get_cumulative_factor \<lparr>patterns = LDF_PATTERNS\<rparr> ''Auto'' 0 = 16.5742094133
   \<and> ue_cumulative_factor (estimate_ultimate \<lparr>patterns = LDF_PATTERNS\<rparr> 50000 ''Auto'' 0) =
       16.5742094133
   \<and> ue_ultimate_loss (estimate_ultimate \<lparr>patterns = LDF_PATTERNS\<rparr> 50000 ''Auto'' 0) =
       828710.470665"
  by (simp add: estimator_defs)

section \<open>Discounting and the accrual\<close>

text \<open>
  Whether \<open>calculate_pv\<close> returns depends on the rate and the years only, not on the
  amount that is discounted.
\<close>

lemma calculate_pv_fault:
  "calculate_pv self fv years = Inl err \<longleftrightarrow>
     (0 < years \<and> float_pow (1 + rate self) (- years) = Inl err)"
  by (auto simp: calculate_pv_def Let_def split: sum.splits)

lemma calculate_pv_value:
  "calculate_pv self fv years = Inr r \<longleftrightarrow>
     (\<exists>df. (if years \<le> 0 then df = 1 else float_pow (1 + rate self) (- years) = Inr df) \<and>
        r = \<lparr>pv_future_value = fv, pv_years = years, pv_discount_rate = rate self,
              pv_discount_factor = df,
              pv_present_value = (if years \<le> 0 then fv else fv * df),
              pv_discount_amount = fv - (if years \<le> 0 then fv else fv * df)\<rparr>)"
  by (auto simp: calculate_pv_def Let_def split: sum.splits)

lemma calculate_pv_same_outcome:
  "(\<exists>err. calculate_pv self fv years = Inl err \<and> calculate_pv self fv' years = Inl err) \<or>
   (\<exists>r r'. calculate_pv self fv years = Inr r \<and> calculate_pv self fv' years = Inr r')"
  by (cases "calculate_pv self fv years"; cases "calculate_pv self fv' years")
     (auto simp: calculate_pv_fault calculate_pv_value split: if_splits)

lemma calculate_pv_returns:
  assumes "0 < 1 + rate self \<or> years \<le> 0"
  shows "\<exists>r. calculate_pv self fv years = Inr r"
  using assms by (auto simp: calculate_pv_def float_pow_def Let_def)

lemma calculate_pv_discount_amount:
  assumes "calculate_pv self fv years = Inr r"
  shows "pv_discount_amount r = fv - pv_present_value r"
  using assms by (auto simp: calculate_pv_value)

text \<open>
  The exception is reached: a rate of -100 per cent makes the base of the power zero.
\<close>

lemma calculate_pv_zero_base:
  "calculate_pv \<lparr>rate = - 1\<rparr> 100 1 = Inl ZeroDivisionError"
  "calculate_pv \<lparr>rate = - 1\<rparr> 100 0 =
     Inr \<lparr>pv_future_value = 100, pv_years = 0, pv_discount_rate = - 1,
          pv_discount_factor = 1, pv_present_value = 100, pv_discount_amount = 0\<rparr>"
  by (simp_all add: calculate_pv_def float_pow_def)

text \<open>With a rate above -100 per cent, or nothing to discount, the accrual is computed.\<close>

lemma calculate_accrual_returns:
  assumes ok: "0 < 1 + rate (discounting self) \<or> years_to_settlement \<le> 0"
  shows "\<exists>r. calculate_accrual self incurred paid claim_type development_period
                years_to_settlement risk_level = Inr r"
proof -
  define U where
    "U = ue_ultimate_loss
           (estimate_ultimate (chain_ladder self) incurred claim_type development_period)"
  obtain r1 where r1: "calculate_pv (discounting self) U years_to_settlement = Inr r1"
    using calculate_pv_returns [OF ok] by blast
  obtain r2 where r2: "calculate_pv (discounting self) (U - paid) years_to_settlement = Inr r2"
    using calculate_pv_returns [OF ok] by blast
  show ?thesis
    unfolding calculate_accrual_def U_def [symmetric] Let_def
    by (simp add: r1 r2)
qed

text \<open>
  Claim C1: for every snapshot, the total accrual that \<open>calculate_accrual\<close> returns is the
  present value that \<open>calculate_pv\<close> gives for the outstanding claims (the ultimate loss
  less the amount paid, over the years to settlement) plus the risk adjustment that
  \<open>calculate\<close> gives for the ultimate loss; \<open>calculate_accrual\<close> fails only where that
  \<open>calculate_pv\<close> fails, and it returns whenever the rate is above -100 per cent or the
  years to settlement are not positive.
\<close>

theorem total_accrual_identity:
  "map_sum id ac_total_accrual
     (calculate_accrual self incurred paid claim_type development_period
        years_to_settlement risk_level) =
   map_sum id
     (\<lambda>pv_outstanding. pv_present_value pv_outstanding +
        ra_risk_adjustment
          (calculate (risk_adjustment self)
             (ue_ultimate_loss (estimate_ultimate (chain_ladder self) incurred claim_type
                development_period)) risk_level))
     (calculate_pv (discounting self)
        (ue_ultimate_loss (estimate_ultimate (chain_ladder self) incurred claim_type
           development_period) - paid) years_to_settlement)
   \<and> (0 < 1 + rate (discounting self) \<or> years_to_settlement \<le> 0 \<longrightarrow>
        (\<exists>r. calculate_accrual self incurred paid claim_type development_period
           years_to_settlement risk_level = Inr r))"
proof -
  define U where
    "U = ue_ultimate_loss
           (estimate_ultimate (chain_ladder self) incurred claim_type development_period)"
  define D where "D = discounting self"
  have "map_sum id ac_total_accrual
          (calculate_accrual self incurred paid claim_type development_period
             years_to_settlement risk_level) =
        map_sum id
          (\<lambda>pv_outstanding. pv_present_value pv_outstanding +
             ra_risk_adjustment (calculate (risk_adjustment self) U risk_level))
          (calculate_pv D (U - paid) years_to_settlement)"
    using calculate_pv_same_outcome [of D U years_to_settlement "U - paid"]
    unfolding calculate_accrual_def U_def [symmetric] D_def [symmetric] Let_def
    by (elim disjE exE conjE) simp_all
  then show ?thesis
    unfolding U_def D_def by (simp add: calculate_accrual_returns)
qed

theorem total_accrual_identity_witness:
  "map_sum id ac_total_accrual (calculate_accrual demo 1000 400 ''Auto'' 9 1 ''Medium'')
     = Inr 580
   \<and> map_sum id
       (\<lambda>pv_outstanding. pv_present_value pv_outstanding +
          ra_risk_adjustment (calculate (risk_adjustment demo) 1000 ''Medium''))
       (calculate_pv (discounting demo) (1000 - 400) 1) = Inr 580
   \<and> 0 < 1 + rate (discounting demo)
   \<and> (\<exists>r. calculate_accrual demo 1000 400 ''Auto'' 9 1 ''Medium'' = Inr r)"
  using total_accrual_identity [of demo 1000 400 "''Auto''" 9 1 "''Medium''"]
  by (simp add: estimator_defs)

text \<open>
  Claim C10: the discount amount of the result is the discount on the ultimate loss, the
  ultimate loss less its present value, and these are the fields \<open>ultimate_loss\<close> and
  \<open>pv_ultimate\<close> of the same result; it is not the discount on the outstanding claims.
\<close>

theorem discount_amount_is_on_ultimate:
  "map_sum id (\<lambda>r. (ac_discount_amount r, ac_ultimate_loss r, ac_pv_ultimate r))
     (calculate_accrual self incurred paid claim_type development_period
        years_to_settlement risk_level) =
   map_sum id
     (\<lambda>pv_ultimate.
        (ue_ultimate_loss (estimate_ultimate (chain_ladder self) incurred claim_type
           development_period) - pv_present_value pv_ultimate,
         ue_ultimate_loss (estimate_ultimate (chain_ladder self) incurred claim_type
           development_period),
         pv_present_value pv_ultimate))
     (calculate_pv (discounting self)
        (ue_ultimate_loss (estimate_ultimate (chain_ladder self) incurred claim_type
           development_period)) years_to_settlement)
   \<and> (\<forall>r. calculate_accrual self incurred paid claim_type development_period
             years_to_settlement risk_level = Inr r \<longrightarrow>
          ac_discount_amount r = ac_ultimate_loss r - ac_pv_ultimate r)"
proof -
  define U where
    "U = ue_ultimate_loss
           (estimate_ultimate (chain_ladder self) incurred claim_type development_period)"
  define D where "D = discounting self"
  have A: "map_sum id (\<lambda>r. (ac_discount_amount r, ac_ultimate_loss r, ac_pv_ultimate r))
             (calculate_accrual self incurred paid claim_type development_period
                years_to_settlement risk_level) =
           map_sum id
             (\<lambda>pv_ultimate.
                (U - pv_present_value pv_ultimate, U, pv_present_value pv_ultimate))
             (calculate_pv D U years_to_settlement)"
    using calculate_pv_same_outcome [of D U years_to_settlement "U - paid"]
    unfolding calculate_accrual_def U_def [symmetric] D_def [symmetric] Let_def
    by (elim disjE exE conjE) (simp_all add: calculate_pv_discount_amount)
  have B: "ac_discount_amount r = ac_ultimate_loss r - ac_pv_ultimate r"
    if "calculate_accrual self incurred paid claim_type development_period
          years_to_settlement risk_level = Inr r" for r
    using A unfolding that by (cases "calculate_pv D U years_to_settlement") auto
  from A B show ?thesis unfolding U_def D_def by blast
qed

theorem discount_amount_is_on_ultimate_witness:
  "\<exists>r. calculate_accrual demo 1000 400 ''Auto'' 8 2 ''High'' = Inr r
       \<and> ac_discount_amount r = ac_ultimate_loss r - ac_pv_ultimate r
       \<and> ac_discount_amount r = 361.8
       \<and> ac_outstanding_claims r - ac_pv_outstanding r = 217.8"
proof -
  obtain r where r: "calculate_accrual demo 1000 400 ''Auto'' 8 2 ''High'' = Inr r"
    by (simp add: estimator_defs powr_neg_numeral)
  have "ac_discount_amount r = ac_ultimate_loss r - ac_pv_ultimate r"
    using discount_amount_is_on_ultimate [of demo 1000 400 "''Auto''" 8 2 "''High''"] r
    by blast
  moreover have "ac_discount_amount r = 361.8
      \<and> ac_outstanding_claims r - ac_pv_outstanding r = 217.8"
    using r by (auto simp add: estimator_defs powr_neg_numeral power2_eq_square)
  ultimately show ?thesis using r by blast
qed

section \<open>The bracket classifier\<close>

text \<open>Each bracket is reached, and each boundary is where the chain of tests puts it.\<close>

lemma bracket_boundary_examples:
  "bracket_of_level 3 = ''Band A (Low Reserve)''"
  "bracket_of_level 4 = ''Band B (Moderate Reserve)''"
  "bracket_of_level 5 = ''Band B (Moderate Reserve)''"
  "bracket_of_level 6 = ''Band C (Elevated Reserve)''"
  "bracket_of_level 7 = ''Band C (Elevated Reserve)''"
  "bracket_of_level 8 = ''Band D (High Reserve)''"
  "bracket_of_level 9 = ''Band D (High Reserve)''"
  "bracket_of_level 10 = ''Band E (Maximum Reserve)''"
  "bracket_of_level 11 = ''Band E (Maximum Reserve)''"
  by (simp_all add: bracket_of_level_def)

lemma bracket_reached_examples:
  "calculate_accrual_bracket ''Under Investigation'' ''Minor'' 0 ''No'' =
     \<lparr>br_bracket = ''Band A (Low Reserve)'', br_accrual_level = 3, br_warnings = [],
      br_uncertainty_score = 0.15\<rparr>"
  "calculate_accrual_bracket ''Under Investigation'' ''Moderate'' 3 ''No'' =
     \<lparr>br_bracket = ''Band B (Moderate Reserve)'', br_accrual_level = 4, br_warnings = [],
      br_uncertainty_score = 0.15\<rparr>"
  "calculate_accrual_bracket ''Settlement Negotiation'' ''Severe'' 0 ''No'' =
     \<lparr>br_bracket = ''Band C (Elevated Reserve)'', br_accrual_level = 7, br_warnings = [],
      br_uncertainty_score = 0\<rparr>"
  "calculate_accrual_bracket ''Closed'' ''Severe'' 0 ''No'' =
     \<lparr>br_bracket = ''Band D (High Reserve)'', br_accrual_level = 8, br_warnings = [],
      br_uncertainty_score = 0\<rparr>"
  "calculate_accrual_bracket ''Closed'' ''Severe'' 7 ''Yes'' =
     \<lparr>br_bracket = ''Band E (Maximum Reserve)'', br_accrual_level = 11,
      br_warnings = [moderate_warning, ibnr_warning], br_uncertainty_score = 0.45\<rparr>"
  by (simp_all add: classifier_defs)

text \<open>
  Claim C3: the bracket of the result is the bracket of the accumulated accrual level, and
  the levels of the five brackets are the ranges up to 3, 4 to 5, 6 to 7, 8 to 9, and 10
  or more, which are contiguous, cover every integer and do not overlap.
\<close>

theorem bracket_boundaries:
  "br_bracket (calculate_accrual_bracket claim_stage severity_bracket investigation_duration
       ibnr_flag) =
     bracket_of_level (br_accrual_level (calculate_accrual_bracket claim_stage severity_bracket
       investigation_duration ibnr_flag))
   \<and> br_accrual_level (calculate_accrual_bracket claim_stage severity_bracket
       investigation_duration ibnr_flag) =
     accrual_level (accumulate_score claim_stage severity_bracket investigation_duration
       ibnr_flag)
   \<and> (bracket_of_level level = ''Band A (Low Reserve)'' \<longleftrightarrow> level \<le> 3)
   \<and> (bracket_of_level level = ''Band B (Moderate Reserve)'' \<longleftrightarrow> 4 \<le> level \<and> level \<le> 5)
   \<and> (bracket_of_level level = ''Band C (Elevated Reserve)'' \<longleftrightarrow> 6 \<le> level \<and> level \<le> 7)
   \<and> (bracket_of_level level = ''Band D (High Reserve)'' \<longleftrightarrow> 8 \<le> level \<and> level \<le> 9)
   \<and> (bracket_of_level level = ''Band E (Maximum Reserve)'' \<longleftrightarrow> 10 \<le> level)"
  by (simp add: calculate_accrual_bracket_def bracket_of_level_def Let_def)

text \<open>
  Before the cap, the uncertainty score is a sum of at most 0.25, 0.30, 0.20 and 0.20.
\<close>

lemma uncertainty_score_bounds:
  "0 \<le> uncertainty_score
         (accumulate_score claim_stage severity_bracket investigation_duration ibnr_flag)"
  "uncertainty_score
     (accumulate_score claim_stage severity_bracket investigation_duration ibnr_flag) \<le> 0.95"
  by (simp_all add: accumulate_score_def Let_def)

text \<open>
  Claim C5: for every claim stage, severity bracket, investigation duration and flag, the
  uncertainty score of the result lies between 0 and 1.
\<close>

theorem uncertainty_in_unit_interval:
  "0 \<le> br_uncertainty_score (calculate_accrual_bracket claim_stage severity_bracket
           investigation_duration ibnr_flag)
   \<and> br_uncertainty_score (calculate_accrual_bracket claim_stage severity_bracket
           investigation_duration ibnr_flag) \<le> 1"
  using uncertainty_score_bounds(1)
          [of claim_stage severity_bracket investigation_duration ibnr_flag]
  by (simp add: calculate_accrual_bracket_def Let_def)

text \<open>
  Claim C4, as it is written: for the stage Reported, the severity Catastrophic, a duration
  of 40 months and the flag set, the uncertainty score is exactly 1.0. It is not.
\<close>

theorem pathological_uncertainty_counterexample:
  "br_uncertainty_score (calculate_accrual_bracket ''Reported'' ''Catastrophic'' 40 ''Yes'')
     \<noteq> 1"
  by (simp add: classifier_defs)

text \<open>
  Claim C4, amended: for that input the uncertainty score is 0.95, the sum of 0.25, 0.30,
  0.20 and 0.20; it is below the cap, which leaves it as it is.
\<close>

theorem pathological_uncertainty:
  "uncertainty_score (accumulate_score ''Reported'' ''Catastrophic'' 40 ''Yes'') = 0.95
   \<and> br_uncertainty_score (calculate_accrual_bracket ''Reported'' ''Catastrophic'' 40 ''Yes'')
       = 0.95"
  by (simp add: classifier_defs)

text \<open>
  Without the flag, the accrual level is made of the stage weight, the severity weight and
  the points of the investigation duration, and the uncertainty of the shares of the
  duration, the stage and the severity.
\<close>

lemma accumulate_score_without_flag:
  assumes "ibnr_flag \<noteq> ''Yes''"
  shows "accrual_level
           (accumulate_score claim_stage severity_bracket investigation_duration ibnr_flag) =
         dict_get stage_weights claim_stage 1 + dict_get severity_weights severity_bracket 1
           + (if investigation_duration > 12 then 2
              else if investigation_duration > 6 then 1 else 0)"
    and "uncertainty_score
           (accumulate_score claim_stage severity_bracket investigation_duration ibnr_flag) =
         (if investigation_duration > 12 then 0.25
          else if investigation_duration > 6 then 0.15 else 0)
           + (if claim_stage = ''Reported'' then 0.20
              else if claim_stage = ''Under Investigation'' then 0.15 else 0)
           + (if severity_bracket = ''Catastrophic'' then 0.20 else 0)"
    and "warnings
           (accumulate_score claim_stage severity_bracket investigation_duration ibnr_flag) =
         (if investigation_duration > 12 then [extended_warning]
          else if investigation_duration > 6 then [moderate_warning] else [])
           @ (if severity_bracket = ''Catastrophic'' then [catastrophic_warning] else [])"
  using assms by (simp_all add: accumulate_score_def Let_def)

text \<open>With the flag, each of the three has the share of the flag as well.\<close>

lemma accumulate_score_with_flag:
  "accrual_level
     (accumulate_score claim_stage severity_bracket investigation_duration ''Yes'') =
   dict_get stage_weights claim_stage 1 + dict_get severity_weights severity_bracket 1
     + (if investigation_duration > 12 then 2
        else if investigation_duration > 6 then 1 else 0)
     + 2"
  "uncertainty_score
     (accumulate_score claim_stage severity_bracket investigation_duration ''Yes'') =
   (if investigation_duration > 12 then 0.25
    else if investigation_duration > 6 then 0.15 else 0)
     + (if claim_stage = ''Reported'' then 0.20
        else if claim_stage = ''Under Investigation'' then 0.15 else 0)
     + (if severity_bracket = ''Catastrophic'' then 0.20 else 0)
     + 0.30"
  "warnings
     (accumulate_score claim_stage severity_bracket investigation_duration ''Yes'') =
   (if investigation_duration > 12 then [extended_warning]
    else if investigation_duration > 6 then [moderate_warning] else [])
     @ [ibnr_warning]
     @ (if severity_bracket = ''Catastrophic'' then [catastrophic_warning] else [])"
  by (simp_all add: accumulate_score_def Let_def)

lemma ibnr_warning_distinct:
  "extended_warning \<noteq> ibnr_warning"
  "moderate_warning \<noteq> ibnr_warning"
  "catastrophic_warning \<noteq> ibnr_warning"
  by (simp_all add: warning_defs)

text \<open>
  Claim C8: when the flag is set, that is, when \<open>ibnr_flag\<close> is the string Yes, the accrual
  level is 2 more than without it, the warnings are those without it and the IBNR warning
  once, and the uncertainty score before the cap is 0.30 more; when the flag is anything
  else, the result is that of the flag No, and the IBNR warning is not among the warnings.
  The uncertainty score of the result is the capped one.
\<close>

theorem ibnr_flag_effects:
  "(ibnr_flag = ''Yes'' \<longrightarrow>
      br_accrual_level (calculate_accrual_bracket claim_stage severity_bracket
          investigation_duration ibnr_flag)
        = br_accrual_level (calculate_accrual_bracket claim_stage severity_bracket
            investigation_duration ''No'') + 2
      \<and> count_list (br_warnings (calculate_accrual_bracket claim_stage severity_bracket
            investigation_duration ibnr_flag)) ibnr_warning = 1
      \<and> filter (\<lambda>w. w \<noteq> ibnr_warning)
            (br_warnings (calculate_accrual_bracket claim_stage severity_bracket
               investigation_duration ibnr_flag))
        = br_warnings (calculate_accrual_bracket claim_stage severity_bracket
            investigation_duration ''No'')
      \<and> uncertainty_score (accumulate_score claim_stage severity_bracket
            investigation_duration ibnr_flag)
        = uncertainty_score (accumulate_score claim_stage severity_bracket
            investigation_duration ''No'') + 0.30)
   \<and> (ibnr_flag \<noteq> ''Yes'' \<longrightarrow>
      calculate_accrual_bracket claim_stage severity_bracket investigation_duration ibnr_flag
        = calculate_accrual_bracket claim_stage severity_bracket investigation_duration ''No''
      \<and> accumulate_score claim_stage severity_bracket investigation_duration ibnr_flag
        = accumulate_score claim_stage severity_bracket investigation_duration ''No''
      \<and> count_list (br_warnings (calculate_accrual_bracket claim_stage severity_bracket
            investigation_duration ibnr_flag)) ibnr_warning = 0)
   \<and> br_uncertainty_score (calculate_accrual_bracket claim_stage severity_bracket
          investigation_duration ibnr_flag)
       = min (uncertainty_score (accumulate_score claim_stage severity_bracket
                investigation_duration ibnr_flag)) 1"
proof (cases "ibnr_flag = ''Yes''")
  case True
  have no: "''No'' \<noteq> ''Yes''" by simp
  show ?thesis
    unfolding True calculate_accrual_bracket_def Let_def
    by (simp add: accumulate_score_with_flag accumulate_score_without_flag [OF no]
          ibnr_warning_distinct)
next
  case False
  have no: "''No'' \<noteq> ''Yes''" by simp
  have same: "accumulate_score claim_stage severity_bracket investigation_duration ibnr_flag
      = accumulate_score claim_stage severity_bracket investigation_duration ''No''"
    using False by (simp add: accumulate_score_def Let_def)
  show ?thesis
    unfolding calculate_accrual_bracket_def Let_def same
    by (simp add: False accumulate_score_without_flag [OF no] ibnr_warning_distinct)
qed

theorem ibnr_flag_effects_witness:
  "br_accrual_level (calculate_accrual_bracket ''Evaluated'' ''Severe'' 7 ''Yes'') = 9
   \<and> br_accrual_level (calculate_accrual_bracket ''Evaluated'' ''Severe'' 7 ''No'') = 7
   \<and> br_warnings (calculate_accrual_bracket ''Evaluated'' ''Severe'' 7 ''Yes'') =
       [moderate_warning, ibnr_warning]
   \<and> br_warnings (calculate_accrual_bracket ''Evaluated'' ''Severe'' 7 ''No'') =
       [moderate_warning]
   \<and> uncertainty_score (accumulate_score ''Evaluated'' ''Severe'' 7 ''Yes'') = 0.45
   \<and> uncertainty_score (accumulate_score ''Evaluated'' ''Severe'' 7 ''No'') = 0.15
   \<and> ''No'' \<noteq> ''Yes''
   \<and> count_list (br_warnings (calculate_accrual_bracket ''Evaluated'' ''Severe'' 7 ''Yes''))
       ibnr_warning = 1
   \<and> count_list (br_warnings (calculate_accrual_bracket ''Evaluated'' ''Severe'' 7 ''No''))
       ibnr_warning = 0"
  using ibnr_flag_effects [of "''Yes''" "''Evaluated''" "''Severe''" 7]
    ibnr_flag_effects [of "''No''" "''Evaluated''" "''Severe''" 7]
  by (simp add: classifier_defs)

end
